theory Spec2Isabelle
  imports Complex_Main "HOL-Library.Char_ord" "HOL-Library.List_Lexorder" "HOL-Library.Log_Nat"
begin

section \<open>Data model of \<open>metrics.py\<close>\<close>

text \<open>
  The script is a linear pipeline over JSON values fetched from the GitHub REST API. The
  embedding keeps the values the script reads and nothing else:
  \<^item> a timestamp is the string the API (or the command line) delivers; it becomes a
    \<open>datetime\<close> only through \<open>datetime.fromisoformat\<close>, a routine of Python's standard
    library that is not part of the repository. The functions below take it as the
    parameter \<open>fromisoformat\<close>, with \<open>None\<close> standing for the \<open>ValueError\<close> it raises;
  \<^item> a floating point number is the rational it denotes. The cycle time, which the report
    shows rounded to two decimals, is computed as Python and pandas compute it, every
    operation rounded to the nearest binary64 number (section \<open>Binary floating point\<close>);
    the merge rate is kept as the exact quotient of the two counts, from which the
    program's value differs by the rounding of one division and one multiplication;
  \<^item> an uncaught exception is the left injection of a sum type.
\<close>

datatype error = ValueError | TypeError | TeamFileError

text \<open>
  A \<open>datetime\<close> object: its calendar and clock fields, counted as microseconds of wall-clock
  time since a fixed origin, and its \<open>tzinfo\<close>: \<open>None\<close> for a naive value, otherwise the UTC
  offset in microseconds.
\<close>

record datetime =
  wall_us :: int
  tzinfo :: "int option"

text \<open>
  One element of the list endpoint's answer, with the keys the script reads:
  \<open>pr['number']\<close>, \<open>pr['user']['login']\<close>, \<open>pr['state']\<close>, \<open>pr.get('created_at')\<close> and
  \<open>pr['merged_at']\<close>. The two timestamps are \<open>None\<close> for JSON \<open>null\<close> (or a missing key).
\<close>

record pull_request =
  number :: int
  login :: string
  state :: string
  created_at :: "string option"
  merged_at :: "string option"

section \<open>Timestamps\<close>

text \<open>\<open>s.replace('Z', '+00:00')\<close>: every occurrence of the letter is replaced.\<close>

definition replace_Z :: "string \<Rightarrow> string" where
  "replace_Z s = concat (map (\<lambda>c. if c = CHR ''Z'' then ''+00:00'' else [c]) s)"

text \<open>
  The nested helper \<open>to_utc\<close> of \<open>fetch_and_calculate_metrics\<close>: parse, and attach UTC to a
  naive value without touching its fields.
\<close>

definition to_utc :: "(string \<Rightarrow> datetime option) \<Rightarrow> string \<Rightarrow> error + datetime" where
  "to_utc fromisoformat dt_str =
     (case fromisoformat dt_str of
        None \<Rightarrow> Inl ValueError
      | Some dt \<Rightarrow> Inr (if tzinfo dt = None then dt\<lparr>tzinfo := Some 0\<rparr> else dt))"

text \<open>
  Python's \<open>a <= b\<close> on \<open>datetime\<close> objects: two aware values are compared as instants
  (wall clock minus offset), two naive values by their fields, and a naive value against an
  aware one raises \<open>TypeError\<close>.
\<close>

definition datetime_le :: "datetime \<Rightarrow> datetime \<Rightarrow> error + bool" where
  "datetime_le a b =
     (case (tzinfo a, tzinfo b) of
        (None, None) \<Rightarrow> Inr (wall_us a \<le> wall_us b)
      | (Some oa, Some ob) \<Rightarrow> Inr (wall_us a - oa \<le> wall_us b - ob)
      | _ \<Rightarrow> Inl TypeError)"

text \<open>
  Python's \<open>end - start\<close> on \<open>datetime\<close> objects, in microseconds, with the same rule for
  mixing naive and aware values.
\<close>

definition datetime_sub :: "datetime \<Rightarrow> datetime \<Rightarrow> error + int" where
  "datetime_sub e s =
     (case (tzinfo e, tzinfo s) of
        (None, None) \<Rightarrow> Inr (wall_us e - wall_us s)
      | (Some oe, Some os) \<Rightarrow> Inr ((wall_us e - oe) - (wall_us s - os))
      | _ \<Rightarrow> Inl TypeError)"

section \<open>Time-window filter\<close>

text \<open>
  The loop of lines 98 to 107. A summary whose \<open>created_at\<close> is \<open>None\<close> or the empty string
  is skipped (\<open>if created_at:\<close>); a timestamp that does not parse raises and ends the run.
  The chained comparison \<open>start_dt <= created_dt <= end_dt\<close> evaluates its second half only
  when the first holds.
\<close>

definition within_window ::
  "(string \<Rightarrow> datetime option) \<Rightarrow> datetime \<Rightarrow> datetime \<Rightarrow> pull_request \<Rightarrow> error + bool" where
  "within_window fromisoformat start_dt end_dt pr =
     (case created_at pr of
        None \<Rightarrow> Inr False
      | Some c \<Rightarrow>
          if c = [] then Inr False
          else
            (case fromisoformat (replace_Z c) of
               None \<Rightarrow> Inl ValueError
             | Some d \<Rightarrow>
                 (let created_dt = (if tzinfo d = None then d\<lparr>tzinfo := Some 0\<rparr> else d)
                  in case datetime_le start_dt created_dt of
                       Inl e \<Rightarrow> Inl e
                     | Inr le1 \<Rightarrow> if le1 then datetime_le created_dt end_dt else Inr False)))"

fun filter_prs ::
  "(string \<Rightarrow> datetime option) \<Rightarrow> datetime \<Rightarrow> datetime \<Rightarrow> pull_request list
     \<Rightarrow> error + pull_request list" where
  "filter_prs fromisoformat start_dt end_dt [] = Inr []"
| "filter_prs fromisoformat start_dt end_dt (pr # prs) =
     (case within_window fromisoformat start_dt end_dt pr of
        Inl e \<Rightarrow> Inl e
      | Inr keep \<Rightarrow>
          (case filter_prs fromisoformat start_dt end_dt prs of
             Inl e \<Rightarrow> Inl e
           | Inr filtered_prs \<Rightarrow> Inr (if keep then pr # filtered_prs else filtered_prs)))"

text \<open>Lines 96 to 107: both bounds are converted first, then the list is filtered.\<close>

definition filter_window ::
  "(string \<Rightarrow> datetime option) \<Rightarrow> string \<Rightarrow> string \<Rightarrow> pull_request list
     \<Rightarrow> error + pull_request list" where
  "filter_window fromisoformat start_date end_date prs =
     (case to_utc fromisoformat start_date of
        Inl e \<Rightarrow> Inl e
      | Inr start_dt \<Rightarrow>
          (case to_utc fromisoformat end_date of
             Inl e \<Rightarrow> Inl e
           | Inr end_dt \<Rightarrow> filter_prs fromisoformat start_dt end_dt prs))"

subsection \<open>The window as the specification words it\<close>

text \<open>
  The instant a timestamp denotes when a missing offset is read as UTC, and the test
  \<open>start \<le> created_at \<le> end\<close> on such instants. A summary without a creation timestamp is
  outside every window.
\<close>

definition utc_instant :: "datetime \<Rightarrow> int" where
  "utc_instant d = wall_us d - (case tzinfo d of None \<Rightarrow> 0 | Some off \<Rightarrow> off)"

definition created_in_window ::
  "(string \<Rightarrow> datetime option) \<Rightarrow> datetime \<Rightarrow> datetime \<Rightarrow> pull_request \<Rightarrow> bool" where
  "created_in_window fromisoformat s e pr =
     (case created_at pr of
        None \<Rightarrow> False
      | Some c \<Rightarrow>
          c \<noteq> [] \<and>
          (case fromisoformat (replace_Z c) of
             None \<Rightarrow> False
           | Some d \<Rightarrow> utc_instant s \<le> utc_instant d \<and> utc_instant d \<le> utc_instant e))"

text \<open>Every creation timestamp that is present is one \<open>fromisoformat\<close> accepts.\<close>

definition timestamps_parse :: "(string \<Rightarrow> datetime option) \<Rightarrow> pull_request list \<Rightarrow> bool" where
  "timestamps_parse fromisoformat prs =
     list_all (\<lambda>pr. case created_at pr of
                       None \<Rightarrow> True
                     | Some c \<Rightarrow> c = [] \<or> fromisoformat (replace_Z c) \<noteq> None) prs"

section \<open>Team directory\<close>

text \<open>
  \<open>teams.json\<close> as \<open>load_team_mapping\<close> meets it: absent (\<open>FileNotFoundError\<close>, the only
  exception the loader catches), present but not a JSON array of objects with the keys
  \<open>github_user\<close> and \<open>team\<close> (any other exception, which the loader lets through), or the
  sequence of its records.
\<close>

record team_entry =
  github_user :: string
  user_team :: string

datatype team_file = FileNotFound | Malformed | Users "team_entry list"

subsection \<open>Report rows and console output\<close>

text \<open>
  One row of the final table. The column \<open>merge_rate_%\<close> is the field \<open>merge_rate\<close>.
\<close>

record team_stats_row =
  row_team :: string
  total_prs :: nat
  merged_prs :: nat
  total_additions :: int
  total_deletions :: int
  merge_rate :: rat
  avg_cycle_time_days :: rat

text \<open>
  What the script prints, one constructor for each \<open>print\<close> call, in the order of the
  source. The users without a team are printed in the iteration order of a Python set,
  which is not fixed: the message carries the set.
\<close>

datatype message =
    TeamMappingNotFound
  | ApiRequestError
  | ApiRequestErrorOnPage nat
  | GeneratingReport string string
  | FetchedPullRequests nat
  | UnassignedUsers "string set"
  | NoUnassignedUsers
  | NoMetricsData
  | FinalReport "team_stats_row list"
  | ReportSaved string

subsection \<open>The loader\<close>

text \<open>
  The dictionary comprehension \<open>{user['github_user']: user['team'] for user in mapping}\<close>
  stores the records in file order, so a later record replaces an earlier one with the
  same key.
\<close>

definition load_team_mapping :: "team_file \<Rightarrow> error + (string \<rightharpoonup> string) \<times> message list" where
  "load_team_mapping file =
     (case file of
        FileNotFound \<Rightarrow> Inr (Map.empty, [TeamMappingNotFound])
      | Malformed \<Rightarrow> Inl TeamFileError
      | Users mapping \<Rightarrow>
          Inr (foldl (\<lambda>m user. m(github_user user \<mapsto> user_team user)) Map.empty mapping, []))"

text \<open>\<open>team_map.get(author, 'Unassigned')\<close>.\<close>

definition team_of :: "(string \<rightharpoonup> string) \<Rightarrow> string \<Rightarrow> string" where
  "team_of team_map author = (case team_map author of None \<Rightarrow> ''Unassigned'' | Some t \<Rightarrow> t)"

section \<open>Remote data fetcher\<close>

text \<open>
  The answer to one GET of the list endpoint: a \<open>RequestException\<close> (raised by
  \<open>requests.get\<close>, by \<open>raise_for_status\<close> or by \<open>response.json\<close>), or the decoded page
  together with whether \<open>response.links\<close> has a \<open>next\<close> relation. The server is a function
  from the page number requested to the answer.
\<close>

datatype page_response = RequestException | Page "pull_request list" bool

text \<open>
  The \<open>while True\<close> loop of \<open>github_api_request\<close> (lines 57 to 74), started with
  \<open>page = 1\<close> and \<open>all_data = []\<close>. Nothing bounds the number of pages, so the loop is a
  partial function: \<open>None\<close> is a run that never leaves the loop. The third argument records
  the page numbers requested so far, oldest first; the result is \<open>all_data\<close>, what was
  printed, and that record.
\<close>

partial_function (option) github_api_request_pages ::
  "(nat \<Rightarrow> page_response) \<Rightarrow> nat \<Rightarrow> pull_request list \<Rightarrow> nat list
     \<Rightarrow> (pull_request list \<times> message list \<times> nat list) option" where
  "github_api_request_pages get page all_data requested =
     (case get page of
        RequestException \<Rightarrow> Some (all_data, [ApiRequestErrorOnPage page], requested @ [page])
      | Page data has_next \<Rightarrow>
          if data = [] then Some (all_data, [], requested @ [page])
          else if \<not> has_next then Some (all_data @ data, [], requested @ [page])
          else github_api_request_pages get (page + 1) (all_data @ data) (requested @ [page]))"

definition github_api_request ::
  "(nat \<Rightarrow> page_response) \<Rightarrow> (pull_request list \<times> message list \<times> nat list) option" where
  "github_api_request get = github_api_request_pages get 1 [] []"

text \<open>
  The detail object of one pull request, with the two keys the script reads through
  \<open>.get(key, 0)\<close>; \<open>None\<close> is a key that is not there. With \<open>single_object=True\<close> a
  \<open>RequestException\<close> (the server's answer \<open>None\<close>) is printed and replaced by the empty
  dictionary.
\<close>

record pr_details =
  additions :: "int option"
  deletions :: "int option"

definition github_api_request_single ::
  "(int \<Rightarrow> pr_details option) \<Rightarrow> int \<Rightarrow> pr_details \<times> message list" where
  "github_api_request_single get_detail n =
     (case get_detail n of
        None \<Rightarrow> (\<lparr>additions = None, deletions = None\<rparr>, [ApiRequestError])
      | Some d \<Rightarrow> (d, []))"

section \<open>Binary floating point\<close>

text \<open>
  Python's \<open>float\<close> and the \<open>float64\<close> columns of pandas are IEEE 754 binary64 numbers:
  rationals \<open>m * 2^e\<close> with \<open>|m| < 2^53\<close>. An arithmetic operation returns the binary64
  number nearest to the exact result, and of two nearest ones the one with an even \<open>m\<close>.
  \<open>binary64 x\<close> is that number for the exact result \<open>x\<close>: \<open>exponent64\<close> gives the exponent
  \<open>e\<close> with \<open>2^52 \<le> |x| / 2^e < 2^53\<close> (estimated from the number of bits of the integer
  part of \<open>|x|\<close>, or of \<open>1 / |x|\<close> below one, and raised by one where the estimate is one
  short), and the quotient is rounded to an integer. The hours, days
  and hundredths of this script are far from the ends of the exponent range, so overflow
  and subnormal numbers are left out.
\<close>

definition round_half_even :: "rat \<Rightarrow> int" where
  "round_half_even x =
     (if x - of_int \<lfloor>x\<rfloor> < 1 / 2 then \<lfloor>x\<rfloor>
      else if 1 / 2 < x - of_int \<lfloor>x\<rfloor> then \<lfloor>x\<rfloor> + 1
      else if even \<lfloor>x\<rfloor> then \<lfloor>x\<rfloor> else \<lfloor>x\<rfloor> + 1)"

definition pow2 :: "int \<Rightarrow> rat" where
  "pow2 e = (if 0 \<le> e then 2 ^ nat e else 1 / 2 ^ nat (- e))"

definition exponent_estimate :: "rat \<Rightarrow> int" where
  "exponent_estimate a =
     (if 1 \<le> a then bitlen \<lfloor>a\<rfloor> - 53 else - bitlen \<lfloor>1 / a\<rfloor> - 52)"

definition exponent64 :: "rat \<Rightarrow> int" where
  "exponent64 a =
     (if pow2 53 \<le> a / pow2 (exponent_estimate a) then exponent_estimate a + 1
      else exponent_estimate a)"

definition binary64 :: "rat \<Rightarrow> rat" where
  "binary64 x =
     (if x = 0 then 0
      else sgn x * of_int (round_half_even (\<bar>x\<bar> / pow2 (exponent64 \<bar>x\<bar>)))
             * pow2 (exponent64 \<bar>x\<bar>))"

section \<open>Metrics extractor\<close>

text \<open>
  \<open>calculate_time_difference\<close>: \<open>not s\<close> holds for \<open>None\<close> and for the empty string.
  \<open>total_seconds()\<close> divides the microseconds of the difference by \<open>10^6\<close>, and the result
  is divided by \<open>3600.0\<close>: two floating point divisions.
\<close>

definition calculate_time_difference ::
  "(string \<Rightarrow> datetime option) \<Rightarrow> string option \<Rightarrow> string option \<Rightarrow> error + rat" where
  "calculate_time_difference fromisoformat start_str end_str =
     (case (start_str, end_str) of
        (Some s, Some e) \<Rightarrow>
          if s = [] \<or> e = [] then Inr 0
          else
            (case fromisoformat (replace_Z s) of
               None \<Rightarrow> Inl ValueError
             | Some start_dt \<Rightarrow>
                 (case fromisoformat (replace_Z e) of
                    None \<Rightarrow> Inl ValueError
                  | Some end_dt \<Rightarrow>
                      (case datetime_sub end_dt start_dt of
                         Inl err \<Rightarrow> Inl err
                       | Inr us \<Rightarrow> Inr (binary64 (binary64 (of_int us / 1000000) / 3600)))))
      | _ \<Rightarrow> Inr 0)"

text \<open>The dictionary \<open>pr_metrics\<close>; its key \<open>state\<close> is the field \<open>pr_state\<close>.\<close>

record pr_metrics =
  team :: string
  pr_id :: int
  author :: string
  pr_state :: string
  merged :: bool
  time_to_merge_hours :: rat
  lines_added :: int
  lines_deleted :: int

text \<open>
  The body of the loop of lines 111 to 131 for one pull request: the record, and what the
  detail request printed. \<open>time_to_merge_hours\<close> starts as \<open>0\<close> and is overwritten only when
  \<open>merged\<close> holds.
\<close>

definition metrics_of_pr ::
  "(string \<Rightarrow> datetime option) \<Rightarrow> (string \<rightharpoonup> string) \<Rightarrow> (int \<Rightarrow> pr_details option)
     \<Rightarrow> pull_request \<Rightarrow> error + pr_metrics \<times> message list" where
  "metrics_of_pr fromisoformat team_map get_detail pr =
     (let (details, msgs) = github_api_request_single get_detail (number pr);
          is_merged = (merged_at pr \<noteq> None)
      in case (if is_merged
               then calculate_time_difference fromisoformat (created_at pr) (merged_at pr)
               else Inr 0) of
           Inl e \<Rightarrow> Inl e
         | Inr hours \<Rightarrow>
             Inr (\<lparr>team = team_of team_map (login pr),
                   pr_id = number pr,
                   author = login pr,
                   pr_state = state pr,
                   merged = is_merged,
                   time_to_merge_hours = hours,
                   lines_added = (case additions details of None \<Rightarrow> 0 | Some n \<Rightarrow> n),
                   lines_deleted = (case deletions details of None \<Rightarrow> 0 | Some n \<Rightarrow> n)\<rparr>,
                  msgs))"

text \<open>
  The loop itself: \<open>metrics_data\<close>, the set \<open>unassigned_users\<close> and the messages, or the
  first exception.
\<close>

fun collect_metrics ::
  "(string \<Rightarrow> datetime option) \<Rightarrow> (string \<rightharpoonup> string) \<Rightarrow> (int \<Rightarrow> pr_details option)
     \<Rightarrow> pull_request list \<Rightarrow> error + pr_metrics list \<times> string set \<times> message list" where
  "collect_metrics fromisoformat team_map get_detail [] = Inr ([], {}, [])"
| "collect_metrics fromisoformat team_map get_detail (pr # prs) =
     (case metrics_of_pr fromisoformat team_map get_detail pr of
        Inl e \<Rightarrow> Inl e
      | Inr (m, msgs) \<Rightarrow>
          (case collect_metrics fromisoformat team_map get_detail prs of
             Inl e \<Rightarrow> Inl e
           | Inr (metrics_data, unassigned_users, later) \<Rightarrow>
               Inr (m # metrics_data,
                    (if team m = ''Unassigned'' then insert (author m) unassigned_users
                     else unassigned_users),
                    msgs @ later)))"

section \<open>Aggregator\<close>

text \<open>
  \<open>df.groupby('team')\<close> with pandas' defaults: the groups are the distinct values of the
  column in ascending order (\<open>sort=True\<close>; strings compare by code point, here by byte),
  and each group holds its rows in their original order.
\<close>

definition group_keys :: "pr_metrics list \<Rightarrow> string list" where
  "group_keys metrics_data = sort (remdups (map team metrics_data))"

definition group_of :: "string \<Rightarrow> pr_metrics list \<Rightarrow> pr_metrics list" where
  "group_of t metrics_data = filter (\<lambda>m. team m = t) metrics_data"

text \<open>
  The aggregation \<open>mean\<close> of a grouped \<open>float64\<close> column: pandas adds the values of the
  group up with a compensation term (Kahan's summation: \<open>sumx\<close>, \<open>compensation\<close>), every
  step a floating point operation, and divides the sum by the number of values.
\<close>

fun kahan_sum :: "rat \<Rightarrow> rat \<Rightarrow> rat list \<Rightarrow> rat" where
  "kahan_sum sumx compensation [] = sumx"
| "kahan_sum sumx compensation (val # vals) =
     (let y = binary64 (val - compensation);
          t = binary64 (sumx + y)
      in kahan_sum t (binary64 (binary64 (t - sumx) - y)) vals)"

definition group_mean :: "rat list \<Rightarrow> rat" where
  "group_mean xs = binary64 (kahan_sum 0 0 xs / of_nat (length xs))"

text \<open>
  \<open>Series.round(2)\<close> on a \<open>float64\<close> column is numpy's rounding: the value is multiplied by
  one hundred, the product is rounded to the nearest integer with a half going to the even
  neighbour (\<open>rint\<close>), and the integer is divided by one hundred.
\<close>

definition round2 :: "rat \<Rightarrow> rat" where
  "round2 x = binary64 (of_int (round_half_even (binary64 (x * 100))) / 100)"

text \<open>
  The named aggregations of lines 142 to 148 on one group, followed by the two derived
  columns of lines 149 and 150; the intermediate column \<open>avg_cycle_time_hours\<close> is dropped
  (line 151). The division by 24 is a floating point division.
\<close>

definition agg_group :: "string \<Rightarrow> pr_metrics list \<Rightarrow> team_stats_row" where
  "agg_group t g =
     (let total = length g;
          n_merged = length (filter merged g);
          avg_cycle_time_hours = group_mean (map time_to_merge_hours g)
      in \<lparr>row_team = t,
          total_prs = total,
          merged_prs = n_merged,
          total_additions = sum_list (map lines_added g),
          total_deletions = sum_list (map lines_deleted g),
          merge_rate = (of_nat n_merged / of_nat total) * 100,
          avg_cycle_time_days = round2 (binary64 (avg_cycle_time_hours / 24))\<rparr>)"

definition team_stats :: "pr_metrics list \<Rightarrow> team_stats_row list" where
  "team_stats metrics_data =
     map (\<lambda>t. agg_group t (group_of t metrics_data)) (group_keys metrics_data)"

section \<open>The run\<close>

text \<open>
  Everything outside the script that a run reads. \<open>sort_values\<close> is the method of that
  name of the pandas table: it takes the column to sort by and whether the order is
  ascending, the two arguments line 152 passes, and returns the rows in the new order.
\<close>

record world =
  datetime_fromisoformat :: "string \<Rightarrow> datetime option"
  teams_json :: team_file
  pulls_endpoint :: "nat \<Rightarrow> page_response"
  pull_endpoint :: "int \<Rightarrow> pr_details option"
  sort_values :: "(team_stats_row \<Rightarrow> rat) \<Rightarrow> bool \<Rightarrow> team_stats_row list \<Rightarrow> team_stats_row list"

text \<open>
  What a run leaves behind: the printed messages in order, the directories it asked
  \<open>os.makedirs\<close> for, and the CSV files written (path, header row, rows).
\<close>

record outcome =
  printed :: "message list"
  made_dirs :: "string list"
  csv_files :: "(string \<times> string list \<times> team_stats_row list) list"

definition csv_headers :: "string list" where
  "csv_headers =
     [''Team'', ''Total PRs'', ''Mrg PRs'', ''Total Add'', ''Total Del'', ''Mg R %'',
      ''Avg Cyc T (d)'']"

definition output_filename :: "string \<Rightarrow> string \<Rightarrow> string" where
  "output_filename start_date end_date =
     ''output/monthly_team_metrics_'' @ start_date @ ''_to_'' @ end_date @ ''.csv''"

text \<open>
  \<open>fetch_and_calculate_metrics\<close>, lines 84 to 170. The result is \<open>None\<close> when the pagination
  never ends, \<open>Some (Inl e)\<close> when an exception leaves the function, and otherwise the
  outcome of the run.
\<close>

definition fetch_and_calculate_metrics ::
  "world \<Rightarrow> string \<Rightarrow> string \<Rightarrow> (error + outcome) option" where
  "fetch_and_calculate_metrics w start_date end_date =
     (case load_team_mapping (teams_json w) of
        Inl e \<Rightarrow> Some (Inl e)
      | Inr (team_map, msgs0) \<Rightarrow>
          (case github_api_request (pulls_endpoint w) of
             None \<Rightarrow> None
           | Some (prs, msgs1, requested) \<Rightarrow>
               (case filter_window (datetime_fromisoformat w) start_date end_date prs of
                  Inl e \<Rightarrow> Some (Inl e)
                | Inr filtered_prs \<Rightarrow>
                    (case collect_metrics (datetime_fromisoformat w) team_map (pull_endpoint w) filtered_prs of
                       Inl e \<Rightarrow> Some (Inl e)
                     | Inr (metrics_data, unassigned_users, msgs2) \<Rightarrow>
                         (let msgs =
                            msgs0 @ [GeneratingReport start_date end_date] @ msgs1 @
                            [FetchedPullRequests (length filtered_prs)] @ msgs2 @
                            [if unassigned_users \<noteq> {} then UnassignedUsers unassigned_users
                             else NoUnassignedUsers]
                          in if metrics_data = [] then
                               Some (Inr \<lparr>printed = msgs @ [NoMetricsData],
                                          made_dirs = [], csv_files = []\<rparr>)
                             else
                               (let stats = sort_values w merge_rate False (team_stats metrics_data);
                                    file = output_filename start_date end_date
                                in Some (Inr \<lparr>printed = msgs @ [FinalReport stats, ReportSaved file],
                                              made_dirs = [''output''],
                                              csv_files = [(file, csv_headers, stats)]\<rparr>)))))))"

section \<open>A concrete reader of timestamps\<close>

text \<open>
  The theorems below hold for every \<open>fromisoformat\<close>. To run the model on concrete
  inputs, \<open>fromisoformat_basic\<close> reads the forms of ISO 8601 that the script meets and
  that every version of Python's routine accepts: \<open>YYYY-MM-DD\<close> (the command line; midnight,
  naive) and \<open>YYYY-MM-DD?HH:MM:SS\<close> with an optional offset \<open>+HH:MM\<close> or \<open>-HH:MM\<close>. Any other
  string is refused, also the further forms newer versions of Python accept. The origin of
  \<open>wall_us\<close> is 1970-01-01T00:00:00.
\<close>

definition digit_value :: "char \<Rightarrow> int option" where
  "digit_value c =
     (let n = (of_char c :: int) in if 48 \<le> n \<and> n \<le> 57 then Some (n - 48) else None)"

fun decimal_from :: "int \<Rightarrow> string \<Rightarrow> int option" where
  "decimal_from acc [] = Some acc"
| "decimal_from acc (c # cs) =
     (case digit_value c of None \<Rightarrow> None | Some d \<Rightarrow> decimal_from (10 * acc + d) cs)"

definition decimal :: "string \<Rightarrow> int option" where
  "decimal s = (if s = [] then None else decimal_from 0 s)"

definition is_leap :: "int \<Rightarrow> bool" where
  "is_leap y = (y mod 4 = 0 \<and> (y mod 100 \<noteq> 0 \<or> y mod 400 = 0))"

definition days_in_month :: "int \<Rightarrow> int \<Rightarrow> int" where
  "days_in_month y m =
     (if m = 2 then (if is_leap y then 29 else 28)
      else if m = 4 \<or> m = 6 \<or> m = 9 \<or> m = 11 then 30 else 31)"

text \<open>Days from 1970-01-01 to a date of the proleptic Gregorian calendar.\<close>

definition days_from_civil :: "int \<Rightarrow> int \<Rightarrow> int \<Rightarrow> int" where
  "days_from_civil y m d =
     (let y' = (if m \<le> 2 then y - 1 else y);
          era = y' div 400;
          yoe = y' - era * 400;
          doy = (153 * (if 2 < m then m - 3 else m + 9) + 2) div 5 + d - 1;
          doe = yoe * 365 + yoe div 4 - yoe div 100 + doy
      in era * 146097 + doe - 719468)"

definition parse_date :: "string \<Rightarrow> int option" where
  "parse_date s =
     (if length s = 10 \<and> s ! 4 = CHR ''-'' \<and> s ! 7 = CHR ''-'' then
        (case (decimal (take 4 s), decimal (take 2 (drop 5 s)), decimal (drop 8 s)) of
           (Some y, Some m, Some d) \<Rightarrow>
             if 1 \<le> y \<and> 1 \<le> m \<and> m \<le> 12 \<and> 1 \<le> d \<and> d \<le> days_in_month y m
             then Some (days_from_civil y m d) else None
         | _ \<Rightarrow> None)
      else None)"

definition parse_time :: "string \<Rightarrow> int option" where
  "parse_time s =
     (if length s = 8 \<and> s ! 2 = CHR '':'' \<and> s ! 5 = CHR '':'' then
        (case (decimal (take 2 s), decimal (take 2 (drop 3 s)), decimal (drop 6 s)) of
           (Some h, Some m, Some sec) \<Rightarrow>
             if h < 24 \<and> m < 60 \<and> sec < 60 then Some (h * 3600 + m * 60 + sec) else None
         | _ \<Rightarrow> None)
      else None)"

text \<open>The offset in seconds: \<open>Some None\<close> for a string without one.\<close>

definition parse_offset :: "string \<Rightarrow> int option option" where
  "parse_offset s =
     (if s = [] then Some None
      else if length s = 6 \<and> (hd s = CHR ''+'' \<or> hd s = CHR ''-'') \<and> s ! 3 = CHR '':'' then
        (case (decimal (take 2 (drop 1 s)), decimal (drop 4 s)) of
           (Some h, Some m) \<Rightarrow>
             if h < 24 \<and> m < 60
             then Some (Some ((if hd s = CHR ''-'' then - 1 else 1) * (h * 3600 + m * 60)))
             else None
         | _ \<Rightarrow> None)
      else None)"

definition fromisoformat_basic :: "string \<Rightarrow> datetime option" where
  "fromisoformat_basic s =
     (case parse_date (take 10 s) of
        None \<Rightarrow> None
      | Some days \<Rightarrow>
          if length s = 10 then Some \<lparr>wall_us = days * 86400 * 1000000, tzinfo = None\<rparr>
          else
            (case parse_time (take 8 (drop 11 s)) of
               None \<Rightarrow> None
             | Some secs \<Rightarrow>
                 (case parse_offset (drop 19 s) of
                    None \<Rightarrow> None
                  | Some off \<Rightarrow>
                      Some \<lparr>wall_us = (days * 86400 + secs) * 1000000,
                            tzinfo = map_option (\<lambda>x. x * 1000000) off\<rparr>)))"

section \<open>Sample data\<close>

text \<open>
  The scenario of the specification (three pull requests inside June 2025, two of the team
  \<open>core\<close> and one of an author without a team), and four more summaries around the edges of
  the window: one without a creation timestamp, one created a second before the window,
  one whose local time is inside the window while its instant is not, and one with a
  timestamp that has no offset.
\<close>

definition pr_alice :: pull_request where
  "pr_alice = \<lparr>number = 1, login = ''alice'', state = ''closed'',
     created_at = Some ''2025-06-01T00:00:00Z'', merged_at = Some ''2025-06-03T00:00:00Z''\<rparr>"

definition pr_bob :: pull_request where
  "pr_bob = \<lparr>number = 2, login = ''bob'', state = ''open'',
     created_at = Some ''2025-06-10T08:30:00Z'', merged_at = None\<rparr>"

definition pr_carol :: pull_request where
  "pr_carol = \<lparr>number = 3, login = ''carol'', state = ''closed'',
     created_at = Some ''2025-06-20T09:00:00Z'', merged_at = Some ''2025-06-20T21:00:00Z''\<rparr>"

definition pr_undated :: pull_request where
  "pr_undated = \<lparr>number = 4, login = ''dave'', state = ''open'',
     created_at = None, merged_at = None\<rparr>"

definition pr_early :: pull_request where
  "pr_early = \<lparr>number = 5, login = ''bob'', state = ''closed'',
     created_at = Some ''2025-05-31T23:59:59Z'', merged_at = None\<rparr>"

definition pr_west :: pull_request where
  "pr_west = \<lparr>number = 6, login = ''alice'', state = ''open'',
     created_at = Some ''2025-06-29T20:00:00-05:00'', merged_at = None\<rparr>"

definition pr_naive :: pull_request where
  "pr_naive = \<lparr>number = 7, login = ''erin'', state = ''open'',
     created_at = Some ''2025-06-30T00:00:00'', merged_at = None\<rparr>"

definition scenario_prs :: "pull_request list" where
  "scenario_prs = [pr_alice, pr_bob, pr_carol]"

definition fetched_prs :: "pull_request list" where
  "fetched_prs = [pr_early, pr_alice, pr_undated, pr_bob, pr_west, pr_carol, pr_naive]"

text \<open>
  The team directory and the detail objects of the scenario, and the records the extractor
  derives from the three pull requests under them.
\<close>

definition scenario_teams :: team_file where
  "scenario_teams =
     Users [\<lparr>github_user = ''alice'', user_team = ''core''\<rparr>,
            \<lparr>github_user = ''bob'', user_team = ''core''\<rparr>]"

definition scenario_details :: "int \<Rightarrow> pr_details option" where
  "scenario_details n =
     (if n = 1 then Some \<lparr>additions = Some 10, deletions = Some 2\<rparr>
      else if n = 2 then Some \<lparr>additions = Some 0, deletions = Some 0\<rparr>
      else if n = 3 then Some \<lparr>additions = Some 5, deletions = Some 1\<rparr>
      else None)"

definition scenario_metrics :: "pr_metrics list" where
  "scenario_metrics =
     [\<lparr>team = ''core'', pr_id = 1, author = ''alice'', pr_state = ''closed'', merged = True,
       time_to_merge_hours = 48, lines_added = 10, lines_deleted = 2\<rparr>,
      \<lparr>team = ''core'', pr_id = 2, author = ''bob'', pr_state = ''open'', merged = False,
       time_to_merge_hours = 0, lines_added = 0, lines_deleted = 0\<rparr>,
      \<lparr>team = ''Unassigned'', pr_id = 3, author = ''carol'', pr_state = ''closed'', merged = True,
       time_to_merge_hours = 12, lines_added = 5, lines_deleted = 1\<rparr>]"

definition core_row :: team_stats_row where
  "core_row = \<lparr>row_team = ''core'', total_prs = 2, merged_prs = 1, total_additions = 10,
     total_deletions = 2, merge_rate = 50, avg_cycle_time_days = 1\<rparr>"

definition unassigned_row :: team_stats_row where
  "unassigned_row = \<lparr>row_team = ''Unassigned'', total_prs = 1, merged_prs = 1,
     total_additions = 5, total_deletions = 1, merge_rate = 100, avg_cycle_time_days = 1 / 2\<rparr>"

text \<open>
  Two servers. The first answers two pages and fails on the third. The second answers
  two pages between which the list moved by one item, as it does when a pull request is
  opened while the script pages through the list: \<open>pr_bob\<close> is the last item of page 1
  and the first item of page 2.
\<close>

definition failing_server :: "nat \<Rightarrow> page_response" where
  "failing_server page =
     (if page = 1 then Page [pr_alice, pr_bob] True
      else if page = 2 then Page [pr_carol] True
      else RequestException)"

definition shifting_server :: "nat \<Rightarrow> page_response" where
  "shifting_server page =
     (if page = 1 then Page [pr_alice, pr_bob] True
      else if page = 2 then Page [pr_bob, pr_carol] False
      else Page [] False)"

text \<open>
  The sorting routine of the sample worlds. As pandas does for a descending order, it
  reverses the rows, sorts them in ascending order of the column and reverses the result;
  the ascending sort is the insertion sort of the list library.
\<close>

definition sort_values_insertion ::
  "(team_stats_row \<Rightarrow> rat) \<Rightarrow> bool \<Rightarrow> team_stats_row list \<Rightarrow> team_stats_row list" where
  "sort_values_insertion column ascending rows =
     (if ascending then sort_key column rows else rev (sort_key column (rev rows)))"

text \<open>
  The world of the scenario for whole runs: the server answers one page with the three
  pull requests, and the team file is the scenario's.
\<close>

definition one_page :: "pull_request list \<Rightarrow> nat \<Rightarrow> page_response" where
  "one_page prs page = (if page = 1 then Page prs False else Page [] False)"

definition scenario_world :: world where
  "scenario_world =
     \<lparr>datetime_fromisoformat = fromisoformat_basic,
      teams_json = scenario_teams,
      pulls_endpoint = one_page scenario_prs,
      pull_endpoint = scenario_details,
      sort_values = sort_values_insertion\<rparr>"

text \<open>
  What the runs of June 2025 leave behind, with the team file of the scenario and without
  a team file. Without it the one team has a mean cycle time of 20 hours, which is
  0.8333... days and is reported as the floating point number 0.83.
\<close>

definition june_file :: string where
  "june_file = ''output/monthly_team_metrics_2025-06-01_to_2025-06-30.csv''"

definition scenario_outcome :: outcome where
  "scenario_outcome =
     \<lparr>printed = [GeneratingReport ''2025-06-01'' ''2025-06-30'', FetchedPullRequests 3,
                 UnassignedUsers {''carol''}, FinalReport [unassigned_row, core_row],
                 ReportSaved june_file],
      made_dirs = [''output''],
      csv_files = [(june_file, csv_headers, [unassigned_row, core_row])]\<rparr>"

definition all_unassigned_metrics :: "pr_metrics list" where
  "all_unassigned_metrics = map (\<lambda>m. m\<lparr>team := ''Unassigned''\<rparr>) scenario_metrics"

definition all_unassigned_row :: team_stats_row where
  "all_unassigned_row = \<lparr>row_team = ''Unassigned'', total_prs = 3, merged_prs = 2,
     total_additions = 15, total_deletions = 3, merge_rate = 200 / 3,
     avg_cycle_time_days = binary64 (83 / 100)\<rparr>"

definition missing_file_outcome :: outcome where
  "missing_file_outcome =
     \<lparr>printed = [TeamMappingNotFound, GeneratingReport ''2025-06-01'' ''2025-06-30'',
                 FetchedPullRequests 3, UnassignedUsers {''alice'', ''bob'', ''carol''},
                 FinalReport [all_unassigned_row], ReportSaved june_file],
      made_dirs = [''output''],
      csv_files = [(june_file, csv_headers, [all_unassigned_row])]\<rparr>"

text \<open>
  Three merged pull requests of three teams with one member each, merged 3024 seconds,
  3 hours and 21 hours after they were created, and the records and rows derived from
  them. In days the cycle times are 0.035, 0.125 and 0.875. The first quotient is computed
  in floating point as 0.034999999999999996 and is reported as 0.03; the other two are
  exact, lie halfway between two hundredths, and go to the even one: 0.12 and 0.88.
\<close>

definition pr_dana :: pull_request where
  "pr_dana = \<lparr>number = 11, login = ''dana'', state = ''closed'',
     created_at = Some ''2025-06-05T10:00:00Z'', merged_at = Some ''2025-06-05T10:50:24Z''\<rparr>"




definition rounding_teams :: "string \<rightharpoonup> string" where
  "rounding_teams = [''dana'' \<mapsto> ''infra'', ''eli'' \<mapsto> ''docs'', ''fay'' \<mapsto> ''web'']"

definition rounding_details :: "int \<Rightarrow> pr_details option" where
  "rounding_details n = Some \<lparr>additions = Some 1, deletions = Some 1\<rparr>"

definition rounding_metrics :: "pr_metrics list" where
  "rounding_metrics =
     [\<lparr>team = ''infra'', pr_id = 11, author = ''dana'', pr_state = ''closed'', merged = True,
       time_to_merge_hours = binary64 (84 / 100), lines_added = 1, lines_deleted = 1\<rparr>,
      \<lparr>team = ''docs'', pr_id = 12, author = ''eli'', pr_state = ''closed'', merged = True,
       time_to_merge_hours = 3, lines_added = 1, lines_deleted = 1\<rparr>,
      \<lparr>team = ''web'', pr_id = 13, author = ''fay'', pr_state = ''closed'', merged = True,
       time_to_merge_hours = 21, lines_added = 1, lines_deleted = 1\<rparr>]"




text \<open>A team file that names one contributor twice, with different teams.\<close>

definition duplicate_entries :: "team_entry list" where
  "duplicate_entries =
     [\<lparr>github_user = ''alice'', user_team = ''core''\<rparr>,
      \<lparr>github_user = ''bob'', user_team = ''core''\<rparr>,
      \<lparr>github_user = ''alice'', user_team = ''platform''\<rparr>]"

subsection \<open>Properties as the specification words them\<close>

text \<open>
  The team of the last record of the file that names a contributor, if there is one.
\<close>

fun last_team :: "string \<Rightarrow> team_entry list \<Rightarrow> string option" where
  "last_team u [] = None"
| "last_team u (e # es) =
     (case last_team u es of
        Some t \<Rightarrow> Some t
      | None \<Rightarrow> if github_user e = u then Some (user_team e) else None)"



text \<open>
  The elapsed hours between creation and merge as the specification states them: zero
  when a timestamp is missing, otherwise \<open>(merged_at - created_at).total_seconds() / 3600.0\<close>
  on the two instants, a timestamp without an offset read as UTC. The second predicate
  holds when both timestamps are there and the merge instant lies before the creation
  instant, which the list endpoint never reports.
\<close>

definition spec_time_to_merge_hours ::
  "(string \<Rightarrow> datetime option) \<Rightarrow> pull_request \<Rightarrow> rat" where
  "spec_time_to_merge_hours fromisoformat pr =
     (case (created_at pr, merged_at pr) of
        (Some c, Some g) \<Rightarrow>
          if c = [] \<or> g = [] then 0
          else
            (case (fromisoformat (replace_Z c), fromisoformat (replace_Z g)) of
               (Some dc, Some dg) \<Rightarrow>
                 binary64 (binary64 (of_int (utc_instant dg - utc_instant dc) / 1000000) / 3600)
             | _ \<Rightarrow> 0)
      | _ \<Rightarrow> 0)"

definition merged_before_created ::
  "(string \<Rightarrow> datetime option) \<Rightarrow> pull_request \<Rightarrow> bool" where
  "merged_before_created fromisoformat pr =
     (case (created_at pr, merged_at pr) of
        (Some c, Some g) \<Rightarrow>
          c \<noteq> [] \<and> g \<noteq> [] \<and>
          (case (fromisoformat (replace_Z c), fromisoformat (replace_Z g)) of
             (Some dc, Some dg) \<Rightarrow> utc_instant dg < utc_instant dc
           | _ \<Rightarrow> False)
      | _ \<Rightarrow> False)"

text \<open>The items of a page; an answer that is an exception carries none.\<close>

fun page_data :: "page_response \<Rightarrow> pull_request list" where
  "page_data (Page data has_next) = data"
| "page_data RequestException = []"

text \<open>
  Every page before page \<open>n\<close> was fetched, was not empty and announced a next page: the
  loop reaches page \<open>n\<close>.
\<close>

definition pages_before_succeed :: "(nat \<Rightarrow> page_response) \<Rightarrow> nat \<Rightarrow> bool" where
  "pages_before_succeed get n =
     list_all (\<lambda>k. case get k of
                      Page data has_next \<Rightarrow> data \<noteq> [] \<and> has_next
                    | RequestException \<Rightarrow> False) [1..<n]"

section \<open>Properties\<close>

subsection \<open>The time-window filter\<close>

lemma within_window_aware:
  assumes "case created_at pr of None \<Rightarrow> True | Some c \<Rightarrow> c = [] \<or> fromisoformat (replace_Z c) \<noteq> None"
    and "tzinfo s \<noteq> None" and "tzinfo e \<noteq> None"
  shows "within_window fromisoformat s e pr = Inr (created_in_window fromisoformat s e pr)"
proof (cases "created_at pr")
  case None
  then show ?thesis by (simp add: within_window_def created_in_window_def)
next
  case (Some c)
  show ?thesis
  proof (cases "c = []")
    case True
    with Some show ?thesis by (simp add: within_window_def created_in_window_def)
  next
    case False
    with Some assms(1) obtain d where d: "fromisoformat (replace_Z c) = Some d" by auto
    from assms(2,3) obtain a b where ab: "tzinfo s = Some a" "tzinfo e = Some b" by auto
    show ?thesis
      using Some False d ab
      by (cases "tzinfo d")
         (simp_all add: within_window_def created_in_window_def datetime_le_def utc_instant_def)
  qed
qed

lemma filter_prs_window:
  assumes "timestamps_parse fromisoformat prs" and "tzinfo s \<noteq> None" and "tzinfo e \<noteq> None"
  shows "filter_prs fromisoformat s e prs = Inr (filter (created_in_window fromisoformat s e) prs)"
  using assms(1)
proof (induction prs)
  case Nil
  then show ?case by simp
next
  case (Cons pr prs)
  then have rest: "filter_prs fromisoformat s e prs =
      Inr (filter (created_in_window fromisoformat s e) prs)"
    by (simp add: timestamps_parse_def)
  from Cons.prems have
    "case created_at pr of None \<Rightarrow> True | Some c \<Rightarrow> c = [] \<or> fromisoformat (replace_Z c) \<noteq> None"
    by (simp add: timestamps_parse_def)
  then have "within_window fromisoformat s e pr = Inr (created_in_window fromisoformat s e pr)"
    using assms(2,3) by (rule within_window_aware)
  then show ?case by (simp add: rest)
qed

lemma utc_instant_attach_utc:
  "utc_instant (if tzinfo d = None then d\<lparr>tzinfo := Some 0\<rparr> else d) = utc_instant d"
  by (cases "tzinfo d") (simp_all add: utc_instant_def)

lemma created_in_window_cong:
  assumes "utc_instant s' = utc_instant s" and "utc_instant e' = utc_instant e"
  shows "created_in_window fromisoformat s' e' = created_in_window fromisoformat s e"
  using assms by (auto simp: created_in_window_def fun_eq_iff split: option.splits)

lemma filter_window_exact:
  assumes "fromisoformat start_date = Some s" and "fromisoformat end_date = Some e"
    and "timestamps_parse fromisoformat prs"
  shows "filter_window fromisoformat start_date end_date prs =
           Inr (filter (created_in_window fromisoformat s e) prs)"
proof -
  let ?s = "if tzinfo s = None then s\<lparr>tzinfo := Some 0\<rparr> else s"
  let ?e = "if tzinfo e = None then e\<lparr>tzinfo := Some 0\<rparr> else e"
  have aware: "tzinfo ?s \<noteq> None" "tzinfo ?e \<noteq> None" by simp_all
  have "filter_window fromisoformat start_date end_date prs = filter_prs fromisoformat ?s ?e prs"
    using assms(1,2) by (simp add: filter_window_def to_utc_def)
  also have "\<dots> = Inr (filter (created_in_window fromisoformat ?s ?e) prs)"
    using assms(3) aware by (rule filter_prs_window)
  also have "created_in_window fromisoformat ?s ?e = created_in_window fromisoformat s e"
    by (rule created_in_window_cong) (rule utc_instant_attach_utc)+
  finally show ?thesis .
qed

text \<open>
  Claim C1. Let the two bounds of the window and every creation timestamp that is present
  be strings \<open>fromisoformat\<close> accepts. Then the time-window filter returns exactly the
  summaries whose creation instant lies between the two bounds, both included, in their
  original order; a timestamp without an offset counts as UTC, on the bounds and on the
  summaries alike, and a summary without a creation timestamp is never kept.
\<close>

theorem time_window_filter_exact:
  assumes "fromisoformat start_date = Some s" and "fromisoformat end_date = Some e"
    and "timestamps_parse fromisoformat prs"
  shows "filter_window fromisoformat start_date end_date prs =
           Inr (filter (created_in_window fromisoformat s e) prs)
         \<and> list_all (\<lambda>pr. created_at pr \<noteq> None)
              (filter (created_in_window fromisoformat s e) prs)"
proof
  show "filter_window fromisoformat start_date end_date prs =
          Inr (filter (created_in_window fromisoformat s e) prs)"
    using assms by (rule filter_window_exact)
  show "list_all (\<lambda>pr. created_at pr \<noteq> None) (filter (created_in_window fromisoformat s e) prs)"
    by (auto simp: list_all_iff created_in_window_def split: option.splits)
qed

theorem time_window_filter_exact_witness:
  "fromisoformat_basic ''2025-06-01'' = Some \<lparr>wall_us = 1748736000000000, tzinfo = None\<rparr>
   \<and> fromisoformat_basic ''2025-06-30'' = Some \<lparr>wall_us = 1751241600000000, tzinfo = None\<rparr>
   \<and> timestamps_parse fromisoformat_basic fetched_prs
   \<and> filter_window fromisoformat_basic ''2025-06-01'' ''2025-06-30'' fetched_prs =
       Inr [pr_alice, pr_bob, pr_carol, pr_naive]"
proof -
  have s: "fromisoformat_basic ''2025-06-01'' =
      Some \<lparr>wall_us = 1748736000000000, tzinfo = None\<rparr>"
    by code_simp
  have e: "fromisoformat_basic ''2025-06-30'' =
      Some \<lparr>wall_us = 1751241600000000, tzinfo = None\<rparr>"
    by code_simp
  have p: "timestamps_parse fromisoformat_basic fetched_prs"
    by code_simp
  have v: "filter (created_in_window fromisoformat_basic
              \<lparr>wall_us = 1748736000000000, tzinfo = None\<rparr>
              \<lparr>wall_us = 1751241600000000, tzinfo = None\<rparr>) fetched_prs =
       [pr_alice, pr_bob, pr_carol, pr_naive]"
    by code_simp
  have "filter_window fromisoformat_basic ''2025-06-01'' ''2025-06-30'' fetched_prs =
       Inr [pr_alice, pr_bob, pr_carol, pr_naive]"
    using time_window_filter_exact [OF s e p] unfolding v by (rule conjunct1)
  with s e p show ?thesis by (intro conjI)
qed

subsection \<open>Floating point operations\<close>

lemma round_half_even_nonneg:
  assumes "0 \<le> x"
  shows "0 \<le> round_half_even x"
proof -
  from assms have "0 \<le> \<lfloor>x\<rfloor>" by simp
  then show ?thesis by (simp add: round_half_even_def)
qed


lemma pow2_positive: "0 < pow2 e"
  by (simp add: pow2_def)

lemma binary64_nonneg:
  assumes "0 \<le> x"
  shows "0 \<le> binary64 x"
proof (cases "x = 0")
  case True
  then show ?thesis by (simp add: binary64_def)
next
  case False
  with assms have pos: "0 < x" by simp
  let ?e = "exponent64 \<bar>x\<bar>"
  have "0 \<le> \<bar>x\<bar> / pow2 ?e"
    using pow2_positive [of ?e] by simp
  then have "0 \<le> round_half_even (\<bar>x\<bar> / pow2 ?e)"
    by (rule round_half_even_nonneg)
  then have "(0::rat) \<le> of_int (round_half_even (\<bar>x\<bar> / pow2 ?e)) * pow2 ?e"
    using pow2_positive [of ?e] by simp
  with pos False show ?thesis by (simp add: binary64_def)
qed

text \<open>
  Rules that evaluate a floating point operation on numerals: the number of bits of a
  numeral, and the integer part of a quotient of numerals.
\<close>

lemma bitlen_numeral_simps:
  "bitlen (numeral num.One) = 1"
  "bitlen (numeral (num.Bit0 n)) = bitlen (numeral n) + 1"
  "bitlen (numeral (num.Bit1 n)) = bitlen (numeral n) + 1"
  "bitlen 1 = 1"
  by (subst compute_bitlen, simp)+

lemma floor_rat_numeral_simps:
  "\<lfloor>numeral a / numeral b :: rat\<rfloor> = numeral a div numeral b"
  "\<lfloor>1 / numeral b :: rat\<rfloor> = 1 div numeral b"
  by (metis floor_divide_of_int_eq of_int_numeral,
      metis floor_divide_of_int_eq of_int_numeral of_int_1)

lemmas float_eval =
  binary64_def exponent64_def exponent_estimate_def pow2_def round_half_even_def
  bitlen_numeral_simps floor_rat_numeral_simps

subsection \<open>The samples, evaluated\<close>

text \<open>
  The timestamps of the samples as \<open>fromisoformat_basic\<close> reads them, the record of each
  sample pull request, and the records and rows of the sample lists.
\<close>

lemma parse_alice:
  "fromisoformat_basic (replace_Z ''2025-06-01T00:00:00Z'') =
     Some \<lparr>wall_us = 1748736000000000, tzinfo = Some 0\<rparr>"
  "fromisoformat_basic (replace_Z ''2025-06-03T00:00:00Z'') =
     Some \<lparr>wall_us = 1748908800000000, tzinfo = Some 0\<rparr>"
  by code_simp+

lemma parse_carol:
  "fromisoformat_basic (replace_Z ''2025-06-20T09:00:00Z'') =
     Some \<lparr>wall_us = 1750410000000000, tzinfo = Some 0\<rparr>"
  "fromisoformat_basic (replace_Z ''2025-06-20T21:00:00Z'') =
     Some \<lparr>wall_us = 1750453200000000, tzinfo = Some 0\<rparr>"
  by code_simp+

lemma parse_dana:
  "fromisoformat_basic (replace_Z ''2025-06-05T10:00:00Z'') =
     Some \<lparr>wall_us = 1749117600000000, tzinfo = Some 0\<rparr>"
  "fromisoformat_basic (replace_Z ''2025-06-05T10:50:24Z'') =
     Some \<lparr>wall_us = 1749120624000000, tzinfo = Some 0\<rparr>"
  by code_simp+



lemma metrics_of_alice:
  "metrics_of_pr fromisoformat_basic team_map scenario_details pr_alice =
     Inr (\<lparr>team = team_of team_map ''alice'', pr_id = 1, author = ''alice'',
           pr_state = ''closed'', merged = True, time_to_merge_hours = 48,
           lines_added = 10, lines_deleted = 2\<rparr>, [])"
  by (simp add: pr_alice_def scenario_details_def metrics_of_pr_def
        github_api_request_single_def calculate_time_difference_def datetime_sub_def
        parse_alice float_eval)

lemma metrics_of_bob:
  "metrics_of_pr fromisoformat_basic team_map scenario_details pr_bob =
     Inr (\<lparr>team = team_of team_map ''bob'', pr_id = 2, author = ''bob'',
           pr_state = ''open'', merged = False, time_to_merge_hours = 0,
           lines_added = 0, lines_deleted = 0\<rparr>, [])"
  by (simp add: pr_bob_def scenario_details_def metrics_of_pr_def
        github_api_request_single_def)

lemma metrics_of_carol:
  "metrics_of_pr fromisoformat_basic team_map scenario_details pr_carol =
     Inr (\<lparr>team = team_of team_map ''carol'', pr_id = 3, author = ''carol'',
           pr_state = ''closed'', merged = True, time_to_merge_hours = 12,
           lines_added = 5, lines_deleted = 1\<rparr>, [])"
  by (simp add: pr_carol_def scenario_details_def metrics_of_pr_def
        github_api_request_single_def calculate_time_difference_def datetime_sub_def
        parse_carol float_eval)

lemma metrics_of_dana:
  "metrics_of_pr fromisoformat_basic team_map rounding_details pr_dana =
     Inr (\<lparr>team = team_of team_map ''dana'', pr_id = 11, author = ''dana'',
           pr_state = ''closed'', merged = True, time_to_merge_hours = binary64 (84 / 100),
           lines_added = 1, lines_deleted = 1\<rparr>, [])"
  by (simp add: pr_dana_def rounding_details_def metrics_of_pr_def
        github_api_request_single_def calculate_time_difference_def datetime_sub_def
        parse_dana float_eval)



lemma collect_scenario:
  "collect_metrics fromisoformat_basic [''alice'' \<mapsto> ''core'', ''bob'' \<mapsto> ''core''] scenario_details scenario_prs
    = Inr (scenario_metrics, {''carol''}, [])"
  by (simp add: scenario_prs_def scenario_metrics_def metrics_of_alice metrics_of_bob
        metrics_of_carol team_of_def)

lemma collect_all_unassigned:
  "collect_metrics fromisoformat_basic Map.empty scenario_details scenario_prs =
     Inr (all_unassigned_metrics, {''alice'', ''bob'', ''carol''}, [])"
  by (simp add: scenario_prs_def all_unassigned_metrics_def scenario_metrics_def
        metrics_of_alice metrics_of_bob metrics_of_carol team_of_def)


lemma sorted_team_names:
  "sort (remdups [''core'', ''core'', ''Unassigned'']) = [''Unassigned'', ''core'']"
  "sort (remdups [''Unassigned'', ''Unassigned'', ''Unassigned'']) = [''Unassigned'']"
  "sort (remdups [''infra'', ''docs'', ''web'']) = [''docs'', ''infra'', ''web'']"
  by code_simp+

lemma group_keys_samples:
  "group_keys scenario_metrics = [''Unassigned'', ''core'']"
  "group_keys all_unassigned_metrics = [''Unassigned'']"
  "group_keys rounding_metrics = [''docs'', ''infra'', ''web'']"
  unfolding group_keys_def all_unassigned_metrics_def scenario_metrics_def rounding_metrics_def
    list.map pr_metrics.simps pr_metrics.update_convs
  by (rule sorted_team_names)+

lemmas aggregate_eval =
  group_of_def agg_group_def group_mean_def round2_def Let_def float_eval

lemma team_stats_scenario: "team_stats scenario_metrics = [unassigned_row, core_row]"
proof -
  have "agg_group ''Unassigned'' (group_of ''Unassigned'' scenario_metrics) = unassigned_row"
    by (simp add: scenario_metrics_def unassigned_row_def aggregate_eval cong: let_weak_cong)
  moreover have "agg_group ''core'' (group_of ''core'' scenario_metrics) = core_row"
    by (simp add: scenario_metrics_def core_row_def aggregate_eval cong: let_weak_cong)
  ultimately show ?thesis by (simp add: team_stats_def group_keys_samples)
qed

lemma team_stats_all_unassigned: "team_stats all_unassigned_metrics = [all_unassigned_row]"
proof -
  have "agg_group ''Unassigned'' (group_of ''Unassigned'' all_unassigned_metrics) =
      all_unassigned_row"
    by (simp add: all_unassigned_metrics_def scenario_metrics_def all_unassigned_row_def
          aggregate_eval cong: let_weak_cong)
  then show ?thesis by (simp add: team_stats_def group_keys_samples)
qed


subsection \<open>The team directory\<close>

lemma foldl_update_last:
  "foldl (\<lambda>m user. m(github_user user \<mapsto> user_team user)) m0 mapping u =
     (case last_team u mapping of Some t \<Rightarrow> Some t | None \<Rightarrow> m0 u)"
  by (induction mapping arbitrary: m0) (auto split: option.splits)

lemma last_team_unnamed:
  assumes "list_all (\<lambda>x. github_user x \<noteq> u) entries"
  shows "last_team u entries = None"
  using assms by (induction entries) auto

lemma last_team_last_record:
  assumes "list_all (\<lambda>x. github_user x \<noteq> github_user entry) later"
  shows "last_team (github_user entry) (earlier @ entry # later) = Some (user_team entry)"
proof (induction earlier)
  case Nil
  show ?case using last_team_unnamed [OF assms] by simp
next
  case (Cons x earlier)
  then show ?case by simp
qed

text \<open>
  Claim C10. The mapping the loader builds from the records of the file sends every
  contributor to the team of the last record that names the contributor: when a record is
  followed by no record with the same \<open>github_user\<close>, the mapping gives its team to that
  contributor, whatever the records before it say.
\<close>

theorem later_team_entry_overrides:
  assumes "mapping = earlier @ entry # later"
    and "list_all (\<lambda>x. github_user x \<noteq> github_user entry) later"
  shows "load_team_mapping (Users mapping) = Inr (\<lambda>u. last_team u mapping, [])
       \<and> last_team (github_user entry) mapping = Some (user_team entry)"
proof
  have "foldl (\<lambda>m user. m(github_user user \<mapsto> user_team user)) Map.empty mapping u =
      last_team u mapping" for u
    by (simp add: foldl_update_last split: option.splits)
  then show "load_team_mapping (Users mapping) = Inr (\<lambda>u. last_team u mapping, [])"
    by (simp add: load_team_mapping_def fun_eq_iff)
  show "last_team (github_user entry) mapping = Some (user_team entry)"
    unfolding assms(1) using assms(2) by (rule last_team_last_record)
qed

theorem later_team_entry_overrides_witness:
  "duplicate_entries =
      [\<lparr>github_user = ''alice'', user_team = ''core''\<rparr>,
       \<lparr>github_user = ''bob'', user_team = ''core''\<rparr>]
      @ \<lparr>github_user = ''alice'', user_team = ''platform''\<rparr> # []
   \<and> list_all (\<lambda>x. github_user x \<noteq>
                 github_user \<lparr>github_user = ''alice'', user_team = ''platform''\<rparr>) []
   \<and> load_team_mapping (Users duplicate_entries) =
        Inr (\<lambda>u. last_team u duplicate_entries, [])
   \<and> last_team ''alice'' duplicate_entries = Some ''platform''
   \<and> last_team ''bob'' duplicate_entries = Some ''core''"
proof -
  have h1: "duplicate_entries =
      [\<lparr>github_user = ''alice'', user_team = ''core''\<rparr>,
       \<lparr>github_user = ''bob'', user_team = ''core''\<rparr>]
      @ \<lparr>github_user = ''alice'', user_team = ''platform''\<rparr> # []"
    by (simp add: duplicate_entries_def)
  have h2: "list_all (\<lambda>x. github_user x \<noteq>
      github_user \<lparr>github_user = ''alice'', user_team = ''platform''\<rparr>) []"
    by simp
  have v: "last_team ''bob'' duplicate_entries = Some ''core''"
    by (simp add: duplicate_entries_def)
  from later_team_entry_overrides [OF h1 h2] h1 h2 v show ?thesis by simp
qed

subsection \<open>Aggregates\<close>




lemma agg_group_row_team [simp]: "row_team (agg_group t g) = t"
  by (simp add: agg_group_def Let_def)




lemma metrics_of_pr_unmerged:
  assumes "metrics_of_pr fromisoformat team_map get_detail pr = Inr (m, msgs)"
  shows "merged m \<or> time_to_merge_hours m = 0"
  using assms
  by (auto simp: metrics_of_pr_def Let_def split: prod.splits sum.splits if_splits)

lemma collect_metrics_shape:
  assumes "collect_metrics fromisoformat team_map get_detail prs = Inr (metrics_data, un, msgs)"
  shows "length metrics_data = length prs"
    and "list_all (\<lambda>m. merged m \<or> time_to_merge_hours m = 0) metrics_data"
  using assms
proof (induction prs arbitrary: metrics_data un msgs)
  case Nil
  { case 1 then show ?case by simp }
  { case 2 then show ?case by simp }
next
  case (Cons pr prs)
  { case 1 then show ?case
      using Cons.IH(1) by (auto split: sum.splits prod.splits) }
  { case 2 then show ?case
      using Cons.IH(2) by (auto split: sum.splits prod.splits dest: metrics_of_pr_unmerged) }
qed





subsection \<open>Cycle time of one pull request\<close>

lemma datetime_sub_utc:
  assumes "datetime_sub e s = Inr us"
  shows "us = utc_instant e - utc_instant s"
  using assms
  by (auto simp: datetime_sub_def utc_instant_def split: option.splits)

lemma calculate_time_difference_spec:
  assumes "calculate_time_difference fromisoformat (created_at pr) (merged_at pr) = Inr h"
  shows "h = spec_time_to_merge_hours fromisoformat pr"
  using assms
  by (auto simp: calculate_time_difference_def spec_time_to_merge_hours_def
           split: option.splits if_splits sum.splits dest!: datetime_sub_utc)

lemma spec_time_unmerged:
  "merged_at pr = None \<Longrightarrow> spec_time_to_merge_hours fromisoformat pr = 0"
  by (simp add: spec_time_to_merge_hours_def split: option.splits)

lemma spec_time_created_missing:
  "created_at pr = None \<Longrightarrow> spec_time_to_merge_hours fromisoformat pr = 0"
  by (simp add: spec_time_to_merge_hours_def)

lemma spec_time_nonneg:
  assumes "\<not> merged_before_created fromisoformat pr"
  shows "0 \<le> spec_time_to_merge_hours fromisoformat pr"
proof -
  have hours: "0 \<le> binary64 (binary64 (of_int (utc_instant dg - utc_instant dc) / 1000000) / 3600)"
    if "utc_instant dc \<le> utc_instant dg" for dc dg
  proof -
    from that have "(0::rat) \<le> of_int (utc_instant dg - utc_instant dc) / 1000000"
      by simp
    then have "0 \<le> binary64 (of_int (utc_instant dg - utc_instant dc) / 1000000)"
      by (rule binary64_nonneg)
    then have "0 \<le> binary64 (of_int (utc_instant dg - utc_instant dc) / 1000000) / 3600"
      by simp
    then show ?thesis by (rule binary64_nonneg)
  qed
  show ?thesis
    using assms
    by (auto simp: spec_time_to_merge_hours_def merged_before_created_def not_less
             simp del: of_int_diff split: option.splits intro: hours)
qed

lemma metrics_of_pr_hours:
  assumes "metrics_of_pr fromisoformat team_map get_detail pr = Inr (m, msgs)"
  shows "merged m = (merged_at pr \<noteq> None)"
    and "time_to_merge_hours m = spec_time_to_merge_hours fromisoformat pr"
proof -
  show "merged m = (merged_at pr \<noteq> None)"
    using assms
    by (auto simp: metrics_of_pr_def Let_def split: prod.splits sum.splits if_splits)
  show "time_to_merge_hours m = spec_time_to_merge_hours fromisoformat pr"
  proof (cases "merged_at pr = None")
    case True
    with assms show ?thesis
      by (auto simp: metrics_of_pr_def Let_def spec_time_unmerged split: prod.splits)
  next
    case False
    with assms obtain h where
      h: "calculate_time_difference fromisoformat (created_at pr) (merged_at pr) = Inr h"
      and m: "time_to_merge_hours m = h"
      by (auto simp: metrics_of_pr_def Let_def split: prod.splits sum.splits)
    from h have "h = spec_time_to_merge_hours fromisoformat pr"
      by (rule calculate_time_difference_spec)
    with m show ?thesis by simp
  qed
qed

text \<open>
  Claim C5. Let the merge instant of a pull request not lie before its creation instant.
  Then in its record \<open>time_to_merge_hours\<close> is not negative, \<open>merged\<close> says whether
  \<open>merged_at\<close> is there, and \<open>time_to_merge_hours\<close> is 0 when the pull request is not
  merged or a timestamp is missing, and otherwise the elapsed time between the two
  instants in hours, \<open>(merged_at - created_at).total_seconds() / 3600.0\<close>.
\<close>

theorem time_to_merge_hours_is_elapsed_time:
  assumes "metrics_of_pr fromisoformat team_map get_detail pr = Inr (m, msgs)"
    and "\<not> merged_before_created fromisoformat pr"
  shows "0 \<le> time_to_merge_hours m
       \<and> merged m = (merged_at pr \<noteq> None)
       \<and> time_to_merge_hours m = spec_time_to_merge_hours fromisoformat pr
       \<and> (merged_at pr = None \<or> created_at pr = None \<longrightarrow> time_to_merge_hours m = 0)"
proof -
  note hours = metrics_of_pr_hours [OF assms(1)]
  have "0 \<le> time_to_merge_hours m"
    unfolding hours(2) using assms(2) by (rule spec_time_nonneg)
  moreover have "time_to_merge_hours m = 0" if "merged_at pr = None \<or> created_at pr = None"
    unfolding hours(2) using that spec_time_unmerged spec_time_created_missing by blast
  ultimately show ?thesis using hours by blast
qed

theorem time_to_merge_hours_is_elapsed_time_witness:
  "metrics_of_pr fromisoformat_basic rounding_teams rounding_details pr_dana =
      Inr (rounding_metrics ! 0, [])
   \<and> \<not> merged_before_created fromisoformat_basic pr_dana
   \<and> 0 \<le> time_to_merge_hours (rounding_metrics ! 0)
   \<and> merged (rounding_metrics ! 0) = (merged_at pr_dana \<noteq> None)
   \<and> time_to_merge_hours (rounding_metrics ! 0) =
        spec_time_to_merge_hours fromisoformat_basic pr_dana
   \<and> time_to_merge_hours (rounding_metrics ! 0) = 7566047373982433 / 9007199254740992
   \<and> metrics_of_pr fromisoformat_basic Map.empty scenario_details pr_carol =
        Inr (all_unassigned_metrics ! 2, [])
   \<and> \<not> merged_before_created fromisoformat_basic pr_carol
   \<and> time_to_merge_hours (all_unassigned_metrics ! 2) =
        spec_time_to_merge_hours fromisoformat_basic pr_carol
   \<and> time_to_merge_hours (all_unassigned_metrics ! 2) = 12
   \<and> metrics_of_pr fromisoformat_basic Map.empty scenario_details pr_bob =
        Inr (all_unassigned_metrics ! 1, [])
   \<and> \<not> merged_before_created fromisoformat_basic pr_bob
   \<and> merged_at pr_bob = None
   \<and> \<not> merged (all_unassigned_metrics ! 1)
   \<and> time_to_merge_hours (all_unassigned_metrics ! 1) = 0"
proof -
  have h1: "metrics_of_pr fromisoformat_basic rounding_teams rounding_details pr_dana =
      Inr (rounding_metrics ! 0, [])"
    by (simp add: metrics_of_dana rounding_metrics_def rounding_teams_def team_of_def)
  have n1: "\<not> merged_before_created fromisoformat_basic pr_dana"
    by (simp add: merged_before_created_def pr_dana_def parse_dana utc_instant_def)
  have v1: "time_to_merge_hours (rounding_metrics ! 0) = 7566047373982433 / 9007199254740992"
    by (simp add: rounding_metrics_def float_eval)
  have h2: "metrics_of_pr fromisoformat_basic Map.empty scenario_details pr_carol =
      Inr (all_unassigned_metrics ! 2, [])"
    by (simp add: metrics_of_carol all_unassigned_metrics_def scenario_metrics_def team_of_def)
  have n2: "\<not> merged_before_created fromisoformat_basic pr_carol"
    by (simp add: merged_before_created_def pr_carol_def parse_carol utc_instant_def)
  have v2: "time_to_merge_hours (all_unassigned_metrics ! 2) = 12"
    by (simp add: all_unassigned_metrics_def scenario_metrics_def)
  have h3: "metrics_of_pr fromisoformat_basic Map.empty scenario_details pr_bob =
      Inr (all_unassigned_metrics ! 1, [])"
    by (simp add: metrics_of_bob all_unassigned_metrics_def scenario_metrics_def team_of_def)
  have n3: "\<not> merged_before_created fromisoformat_basic pr_bob"
    by (simp add: merged_before_created_def pr_bob_def)
  have u3: "merged_at pr_bob = None" by (simp add: pr_bob_def)
  from time_to_merge_hours_is_elapsed_time [OF h1 n1]
    time_to_merge_hours_is_elapsed_time [OF h2 n2]
    time_to_merge_hours_is_elapsed_time [OF h3 n3] h1 n1 v1 h2 n2 v2 h3 n3 u3
  show ?thesis by simp
qed

subsection \<open>Pagination\<close>

lemma pages_until_failure:
  assumes "get n = RequestException"
    and "\<forall>k. p \<le> k \<and> k < n \<longrightarrow> (\<exists>data. get k = Page data True \<and> data \<noteq> [])"
    and "p \<le> n"
  shows "github_api_request_pages get p all_data requested =
           Some (all_data @ concat (map (\<lambda>k. page_data (get k)) [p..<n]),
                 [ApiRequestErrorOnPage n], requested @ [p..<Suc n])"
  using assms(2,3)
proof (induction "n - p" arbitrary: p all_data requested)
  case 0
  then have "p = n" by simp
  with assms(1) show ?case
    by (subst github_api_request_pages.simps) simp
next
  case (Suc d)
  then have lt: "p < n" by simp
  with Suc.prems(1) obtain data where data: "get p = Page data True" "data \<noteq> []" by blast
  have step: "github_api_request_pages get p all_data requested =
      github_api_request_pages get (p + 1) (all_data @ data) (requested @ [p])"
    by (subst github_api_request_pages.simps) (simp add: data)
  have "github_api_request_pages get (Suc p) (all_data @ data) (requested @ [p]) =
      Some ((all_data @ data) @ concat (map (\<lambda>k. page_data (get k)) [Suc p..<n]),
            [ApiRequestErrorOnPage n], (requested @ [p]) @ [Suc p..<Suc n])"
  proof (rule Suc.hyps(1))
    show "d = n - Suc p" using Suc.hyps(2) by simp
    show "\<forall>k. Suc p \<le> k \<and> k < n \<longrightarrow> (\<exists>data. get k = Page data True \<and> data \<noteq> [])"
      using Suc.prems(1) by auto
    show "Suc p \<le> n" using lt by simp
  qed
  moreover have "[p..<n] = p # [Suc p..<n]" using lt by (simp add: upt_conv_Cons)
  moreover have "[p..<Suc n] = p # [Suc p..<Suc n]" using lt by (simp add: upt_conv_Cons)
  ultimately show ?case by (simp add: step data)
qed

lemma pages_before_succeedD:
  assumes "pages_before_succeed get n"
  shows "\<forall>k. 1 \<le> k \<and> k < n \<longrightarrow> (\<exists>data. get k = Page data True \<and> data \<noteq> [])"
proof (intro allI impI)
  fix k assume "1 \<le> k \<and> k < n"
  then have "k \<in> set [1..<n]" by simp
  with assms have ok: "case get k of Page data has_next \<Rightarrow> data \<noteq> [] \<and> has_next
                                | RequestException \<Rightarrow> False"
    unfolding pages_before_succeed_def list_all_iff by blast
  show "\<exists>data. get k = Page data True \<and> data \<noteq> []"
  proof (cases "get k")
    case RequestException
    with ok show ?thesis by simp
  next
    case (Page data has_next)
    with ok show ?thesis by simp
  qed
qed

text \<open>
  Claim C9. Let the requests for the pages 1 to \<open>n - 1\<close> succeed with items and a next page,
  and let the request for page \<open>n\<close> fail. Then the list operation returns (it neither raises
  nor runs on) exactly the items of the pages 1 to \<open>n - 1\<close> in order, prints one message,
  which names page \<open>n\<close>, and has requested each of the pages 1 to \<open>n\<close> once: the failed
  request is not repeated.
\<close>

theorem pagination_failure_returns_partial_result:
  assumes "1 \<le> n" and "get n = RequestException" and "pages_before_succeed get n"
  shows "github_api_request get =
           Some (concat (map (\<lambda>k. page_data (get k)) [1..<n]),
                 [ApiRequestErrorOnPage n], [1..<Suc n])"
  using pages_until_failure [OF assms(2) pages_before_succeedD [OF assms(3)] assms(1), of "[]" "[]"]
  by (simp add: github_api_request_def)

theorem pagination_failure_returns_partial_result_witness:
  "(1::nat) \<le> 3 \<and> failing_server 3 = RequestException \<and> pages_before_succeed failing_server 3
   \<and> github_api_request failing_server =
        Some (concat (map (\<lambda>k. page_data (failing_server k)) [1..<3]),
              [ApiRequestErrorOnPage 3], [1..<Suc 3])
   \<and> concat (map (\<lambda>k. page_data (failing_server k)) [1..<3]) = [pr_alice, pr_bob, pr_carol]"
proof -
  have h1: "(1::nat) \<le> 3" by simp
  have h2: "failing_server 3 = RequestException" by (simp add: failing_server_def)
  have h3: "pages_before_succeed failing_server 3"
    by code_simp
  have v: "concat (map (\<lambda>k. page_data (failing_server k)) [1..<3]) = [pr_alice, pr_bob, pr_carol]"
    by code_simp
  from pagination_failure_returns_partial_result [OF h1 h2 h3] h1 h2 h3 v
  show ?thesis by (intro conjI)
qed

subsection \<open>Identifiers of the records\<close>

lemma filter_prs_is_filter:
  assumes "filter_prs fromisoformat s e prs = Inr r"
  shows "r = filter (\<lambda>pr. within_window fromisoformat s e pr = Inr True) prs"
  using assms
  by (induction prs arbitrary: r) (auto split: sum.splits if_splits)

lemma filter_window_distinct:
  assumes "filter_window fromisoformat start_date end_date prs = Inr r"
    and "distinct (map number prs)"
  shows "distinct (map number r)"
proof -
  from assms(1) obtain s e where "filter_prs fromisoformat s e prs = Inr r"
    by (auto simp: filter_window_def split: sum.splits)
  then have "r = filter (\<lambda>pr. within_window fromisoformat s e pr = Inr True) prs"
    by (rule filter_prs_is_filter)
  with assms(2) show ?thesis by (simp add: distinct_map_filter)
qed

lemma metrics_of_pr_id:
  assumes "metrics_of_pr fromisoformat team_map get_detail pr = Inr (m, msgs)"
  shows "pr_id m = number pr" and "author m = login pr"
    and "team m = team_of team_map (login pr)"
  using assms
  by (auto simp: metrics_of_pr_def Let_def split: prod.splits sum.splits)

lemma collect_metrics_pr_ids:
  assumes "collect_metrics fromisoformat team_map get_detail prs = Inr (metrics_data, un, msgs)"
  shows "map pr_id metrics_data = map number prs"
  using assms
  by (induction prs arbitrary: metrics_data un msgs)
     (auto split: sum.splits prod.splits dest: metrics_of_pr_id(1))

text \<open>
  Claim C8, as amended. The records carry the identifiers of the pull requests that passed
  the window filter, one record for each, in the same order. They are pairwise different
  whenever the list the server delivered names no pull request twice; the script itself
  removes no duplicates.
\<close>

theorem pr_ids_follow_fetched_numbers:
  assumes "filter_window fromisoformat start_date end_date prs = Inr filtered_prs"
    and "collect_metrics fromisoformat team_map get_detail filtered_prs =
           Inr (metrics_data, unassigned_users, msgs)"
  shows "map pr_id metrics_data = map number filtered_prs
       \<and> (distinct (map number prs) \<longrightarrow> distinct (map pr_id metrics_data))"
proof -
  have eq: "map pr_id metrics_data = map number filtered_prs"
    using assms(2) by (rule collect_metrics_pr_ids)
  show ?thesis
    unfolding eq using filter_window_distinct [OF assms(1)] by simp
qed

theorem pr_ids_follow_fetched_numbers_witness:
  "filter_window fromisoformat_basic ''2025-06-01'' ''2025-06-30'' scenario_prs = Inr scenario_prs
   \<and> collect_metrics fromisoformat_basic [''alice'' \<mapsto> ''core'', ''bob'' \<mapsto> ''core'']
        scenario_details scenario_prs = Inr (scenario_metrics, {''carol''}, [])
   \<and> distinct (map number scenario_prs)
   \<and> map pr_id scenario_metrics = map number scenario_prs
   \<and> distinct (map pr_id scenario_metrics)"
proof -
  have h1: "filter_window fromisoformat_basic ''2025-06-01'' ''2025-06-30'' scenario_prs =
      Inr scenario_prs"
    by code_simp
  have h2: "collect_metrics fromisoformat_basic [''alice'' \<mapsto> ''core'', ''bob'' \<mapsto> ''core'']
        scenario_details scenario_prs = Inr (scenario_metrics, {''carol''}, [])"
    by (rule collect_scenario)
  have d: "distinct (map number scenario_prs)"
    by code_simp
  from pr_ids_follow_fetched_numbers [OF h1 h2] h1 h2 d show ?thesis by simp
qed

theorem pr_ids_repeat_counterexample:
  "github_api_request shifting_server = Some ([pr_alice, pr_bob, pr_bob, pr_carol], [], [1, 2])
   \<and> filter_window fromisoformat_basic ''2025-06-01'' ''2025-06-30''
        [pr_alice, pr_bob, pr_bob, pr_carol] = Inr [pr_alice, pr_bob, pr_bob, pr_carol]
   \<and> map_sum id (\<lambda>r. map pr_id (fst r))
        (collect_metrics fromisoformat_basic Map.empty scenario_details
           [pr_alice, pr_bob, pr_bob, pr_carol]) = Inr [1, 2, 2, 3]
   \<and> \<not> distinct [1, 2, 2, 3 :: int]"
proof -
  have a: "github_api_request shifting_server =
      Some ([pr_alice, pr_bob, pr_bob, pr_carol], [], [1, 2])"
    unfolding github_api_request_def
    by (subst github_api_request_pages.simps, simp add: shifting_server_def)+
  have b: "filter_window fromisoformat_basic ''2025-06-01'' ''2025-06-30''
        [pr_alice, pr_bob, pr_bob, pr_carol] = Inr [pr_alice, pr_bob, pr_bob, pr_carol]"
    by code_simp
  have c: "map_sum id (\<lambda>r. map pr_id (fst r))
        (collect_metrics fromisoformat_basic Map.empty scenario_details
           [pr_alice, pr_bob, pr_bob, pr_carol]) = Inr [1, 2, 2, 3]"
    by (simp add: metrics_of_alice metrics_of_bob metrics_of_carol)
  have d: "\<not> distinct [1, 2, 2, 3 :: int]" by simp
  from a b c d show ?thesis by (intro conjI)
qed

subsection \<open>Whole runs\<close>

lemma run_without_data:
  assumes "load_team_mapping (teams_json w) = Inr (team_map, msgs0)"
    and "github_api_request (pulls_endpoint w) = Some (prs, msgs1, requested)"
    and "filter_window (datetime_fromisoformat w) start_date end_date prs = Inr []"
  shows "fetch_and_calculate_metrics w start_date end_date =
           Some (Inr \<lparr>printed = msgs0 @ [GeneratingReport start_date end_date] @ msgs1 @
                                 [FetchedPullRequests 0, NoUnassignedUsers, NoMetricsData],
                      made_dirs = [], csv_files = []\<rparr>)"
  using assms by (simp add: fetch_and_calculate_metrics_def)

lemma run_with_data:
  assumes "load_team_mapping (teams_json w) = Inr (team_map, msgs0)"
    and "github_api_request (pulls_endpoint w) = Some (prs, msgs1, requested)"
    and "filter_window (datetime_fromisoformat w) start_date end_date prs = Inr filtered_prs"
    and "collect_metrics (datetime_fromisoformat w) team_map (pull_endpoint w) filtered_prs =
           Inr (metrics_data, unassigned_users, msgs2)"
    and "metrics_data \<noteq> []"
  shows "fetch_and_calculate_metrics w start_date end_date =
           Some (Inr \<lparr>printed = msgs0 @ [GeneratingReport start_date end_date] @ msgs1 @
                       [FetchedPullRequests (length filtered_prs)] @ msgs2 @
                       [if unassigned_users \<noteq> {} then UnassignedUsers unassigned_users
                        else NoUnassignedUsers] @
                       [FinalReport (sort_values w merge_rate False (team_stats metrics_data)),
                        ReportSaved (output_filename start_date end_date)],
                      made_dirs = [''output''],
                      csv_files = [(output_filename start_date end_date, csv_headers,
                                    sort_values w merge_rate False (team_stats metrics_data))]\<rparr>)"
  using assms by (simp add: fetch_and_calculate_metrics_def Let_def)

lemma collect_metrics_empty_iff:
  assumes "collect_metrics fromisoformat team_map get_detail prs = Inr (metrics_data, un, msgs)"
  shows "metrics_data = [] \<longleftrightarrow> prs = []"
  using collect_metrics_shape(1) [OF assms] by auto

text \<open>
  Claim C7. When the team file loads, the pagination ends and no pull request falls in
  the window, the run returns normally: the last thing it prints is that there is no data
  to process, it asks for no directory and writes no file. The extractor produces no
  record exactly when no pull request passed the filter.
\<close>

theorem empty_window_writes_no_report:
  assumes "load_team_mapping (teams_json w) = Inr (team_map, msgs0)"
    and "github_api_request (pulls_endpoint w) = Some (prs, msgs1, requested)"
    and "filter_window (datetime_fromisoformat w) start_date end_date prs = Inr []"
  shows "fetch_and_calculate_metrics w start_date end_date =
           Some (Inr \<lparr>printed = msgs0 @ [GeneratingReport start_date end_date] @ msgs1 @
                                 [FetchedPullRequests 0, NoUnassignedUsers, NoMetricsData],
                      made_dirs = [], csv_files = []\<rparr>)
       \<and> (\<forall>filtered_prs metrics_data unassigned_users msgs2.
             collect_metrics (datetime_fromisoformat w) team_map (pull_endpoint w) filtered_prs =
               Inr (metrics_data, unassigned_users, msgs2) \<longrightarrow>
             (metrics_data = [] \<longleftrightarrow> filtered_prs = []))"
  using run_without_data [OF assms] collect_metrics_empty_iff by blast

lemma load_scenario_teams:
  "load_team_mapping scenario_teams = Inr ([''alice'' \<mapsto> ''core'', ''bob'' \<mapsto> ''core''], [])"
  by (simp add: load_team_mapping_def scenario_teams_def)

lemma one_page_request:
  "prs \<noteq> [] \<Longrightarrow> github_api_request (one_page prs) = Some (prs, [], [1])"
  unfolding github_api_request_def
  by (subst github_api_request_pages.simps) (simp add: one_page_def)

theorem empty_window_writes_no_report_witness:
  "load_team_mapping (teams_json scenario_world) =
      Inr ([''alice'' \<mapsto> ''core'', ''bob'' \<mapsto> ''core''], [])
   \<and> github_api_request (pulls_endpoint scenario_world) = Some (scenario_prs, [], [1])
   \<and> filter_window (datetime_fromisoformat scenario_world) ''2024-01-01'' ''2024-01-31''
        scenario_prs = Inr []
   \<and> fetch_and_calculate_metrics scenario_world ''2024-01-01'' ''2024-01-31'' =
        Some (Inr \<lparr>printed = [GeneratingReport ''2024-01-01'' ''2024-01-31'',
                              FetchedPullRequests 0, NoUnassignedUsers, NoMetricsData],
                   made_dirs = [], csv_files = []\<rparr>)"
proof -
  have h1: "load_team_mapping (teams_json scenario_world) =
      Inr ([''alice'' \<mapsto> ''core'', ''bob'' \<mapsto> ''core''], [])"
    by (simp add: scenario_world_def load_scenario_teams)
  have h2: "github_api_request (pulls_endpoint scenario_world) = Some (scenario_prs, [], [1])"
    by (simp add: scenario_world_def one_page_request scenario_prs_def)
  have "filter_window fromisoformat_basic ''2024-01-01'' ''2024-01-31'' scenario_prs = Inr []"
    by code_simp
  then have h3: "filter_window (datetime_fromisoformat scenario_world) ''2024-01-01''
      ''2024-01-31'' scenario_prs = Inr []"
    by (simp add: scenario_world_def)
  from empty_window_writes_no_report [OF h1 h2 h3] h1 h2 h3 show ?thesis by simp
qed

subsection \<open>The run of the scenario\<close>

lemma filter_scenario_june:
  "filter_window fromisoformat_basic ''2025-06-01'' ''2025-06-30'' scenario_prs = Inr scenario_prs"
  by code_simp

lemma sort_scenario_rows:
  "sort_values_insertion merge_rate False [unassigned_row, core_row] = [unassigned_row, core_row]"
  by code_simp

lemma run_scenario:
  "fetch_and_calculate_metrics scenario_world ''2025-06-01'' ''2025-06-30'' =
     Some (Inr scenario_outcome)"
proof -
  have h1: "load_team_mapping (teams_json scenario_world) =
      Inr ([''alice'' \<mapsto> ''core'', ''bob'' \<mapsto> ''core''], [])"
    by (simp add: scenario_world_def load_scenario_teams)
  have h2: "github_api_request (pulls_endpoint scenario_world) = Some (scenario_prs, [], [1])"
    by (simp add: scenario_world_def one_page_request scenario_prs_def)
  have h3: "filter_window (datetime_fromisoformat scenario_world) ''2025-06-01'' ''2025-06-30''
      scenario_prs = Inr scenario_prs"
    by (simp add: scenario_world_def filter_scenario_june)
  have h4: "collect_metrics (datetime_fromisoformat scenario_world)
      [''alice'' \<mapsto> ''core'', ''bob'' \<mapsto> ''core''] (pull_endpoint scenario_world) scenario_prs =
      Inr (scenario_metrics, {''carol''}, [])"
    by (simp add: scenario_world_def collect_scenario)
  have h5: "scenario_metrics \<noteq> []" by (simp add: scenario_metrics_def)
  have f: "output_filename ''2025-06-01'' ''2025-06-30'' = june_file"
    by (simp add: output_filename_def june_file_def)
  have l: "length scenario_prs = 3" by (simp add: scenario_prs_def)
  have s: "sort_values scenario_world merge_rate False (team_stats scenario_metrics) =
      [unassigned_row, core_row]"
    by (simp add: scenario_world_def team_stats_scenario sort_scenario_rows)
  show ?thesis
    unfolding run_with_data [OF h1 h2 h3 h4 h5] f l s scenario_outcome_def by simp
qed

subsection \<open>A missing team file\<close>

lemma metrics_of_pr_other_map:
  assumes "metrics_of_pr fromisoformat team_map get_detail pr = Inr (m, msgs)"
  shows "metrics_of_pr fromisoformat team_map' get_detail pr =
           Inr (m\<lparr>team := team_of team_map' (login pr)\<rparr>, msgs)"
  using assms
  by (auto simp: metrics_of_pr_def Let_def split: prod.splits sum.splits if_splits)

lemma metrics_of_pr_team:
  assumes "metrics_of_pr fromisoformat team_map get_detail pr = Inr (m, msgs)"
  shows "team m = team_of team_map (author m)"
  using metrics_of_pr_id(2,3) [OF assms] by simp

lemma collect_metrics_other_map:
  assumes "collect_metrics fromisoformat team_map get_detail prs = Inr (metrics_data, un, msgs)"
  shows "\<exists>metrics_data' un'.
           collect_metrics fromisoformat team_map' get_detail prs = Inr (metrics_data', un', msgs)
           \<and> length metrics_data' = length metrics_data"
  using assms
proof (induction prs arbitrary: metrics_data un msgs)
  case Nil
  then show ?case by simp
next
  case (Cons pr prs)
  from Cons.prems obtain m ms md0 un0 msgs0 where
    m: "metrics_of_pr fromisoformat team_map get_detail pr = Inr (m, ms)"
    and rest: "collect_metrics fromisoformat team_map get_detail prs = Inr (md0, un0, msgs0)"
    and md: "metrics_data = m # md0" and msgs: "msgs = ms @ msgs0"
    by (auto split: sum.splits prod.splits)
  from Cons.IH [OF rest] obtain md1 un1 where
    rest': "collect_metrics fromisoformat team_map' get_detail prs = Inr (md1, un1, msgs0)"
    and len: "length md1 = length md0"
    by blast
  show ?case
    using metrics_of_pr_other_map [OF m, of team_map'] rest' len md msgs by simp
qed

lemma collect_metrics_teams:
  assumes "collect_metrics fromisoformat team_map get_detail prs = Inr (metrics_data, un, msgs)"
  shows "list_all (\<lambda>m. team m = team_of team_map (author m)) metrics_data"
  using assms
  by (induction prs arbitrary: metrics_data un msgs)
     (auto split: sum.splits prod.splits dest: metrics_of_pr_team)

lemma team_of_empty [simp]: "team_of Map.empty login_name = ''Unassigned''"
  by (simp add: team_of_def)

lemma run_reportE:
  assumes "fetch_and_calculate_metrics w start_date end_date = Some (Inr out)"
    and "csv_files out \<noteq> []"
  obtains team_map msgs0 prs msgs1 requested filtered_prs metrics_data unassigned_users msgs2
  where "load_team_mapping (teams_json w) = Inr (team_map, msgs0)"
    and "github_api_request (pulls_endpoint w) = Some (prs, msgs1, requested)"
    and "filter_window (datetime_fromisoformat w) start_date end_date prs = Inr filtered_prs"
    and "collect_metrics (datetime_fromisoformat w) team_map (pull_endpoint w) filtered_prs =
           Inr (metrics_data, unassigned_users, msgs2)"
    and "metrics_data \<noteq> []"
proof -
  from assms(1) obtain team_map msgs0 where
    a: "load_team_mapping (teams_json w) = Inr (team_map, msgs0)"
    by (auto simp: fetch_and_calculate_metrics_def split: sum.splits)
  from assms(1) a obtain prs msgs1 requested where
    b: "github_api_request (pulls_endpoint w) = Some (prs, msgs1, requested)"
    by (auto simp: fetch_and_calculate_metrics_def split: option.splits)
  from assms(1) a b obtain filtered_prs where
    c: "filter_window (datetime_fromisoformat w) start_date end_date prs = Inr filtered_prs"
    by (auto simp: fetch_and_calculate_metrics_def split: sum.splits)
  from assms(1) a b c obtain metrics_data unassigned_users msgs2 where
    d: "collect_metrics (datetime_fromisoformat w) team_map (pull_endpoint w) filtered_prs =
           Inr (metrics_data, unassigned_users, msgs2)"
    by (auto simp: fetch_and_calculate_metrics_def split: sum.splits)
  have e: "metrics_data \<noteq> []"
  proof
    assume "metrics_data = []"
    with assms(1) a b c d have "csv_files out = []"
      by (auto simp: fetch_and_calculate_metrics_def)
    with assms(2) show False by simp
  qed
  from a b c d e show thesis by (rule that)
qed

text \<open>
  Claim C6. A team file that cannot be found makes the loader print its diagnostic and
  return the empty mapping; under the empty mapping every author resolves to
  \<open>Unassigned\<close>, so every record the extractor produces carries that team. The run goes
  on as before: whenever a world's run produces a report, the run of the same world
  without the team file returns normally as well, prints the diagnostic first, and writes
  the report under the same name.
\<close>

theorem missing_team_file_is_recoverable:
  assumes "fetch_and_calculate_metrics w start_date end_date = Some (Inr out')"
    and "csv_files out' \<noteq> []"
  shows "load_team_mapping FileNotFound = Inr (Map.empty, [TeamMappingNotFound])
       \<and> (\<forall>login_name. team_of Map.empty login_name = ''Unassigned'')
       \<and> (\<forall>get_detail prs metrics_data un msgs.
             collect_metrics (datetime_fromisoformat w) Map.empty get_detail prs =
               Inr (metrics_data, un, msgs) \<longrightarrow>
             list_all (\<lambda>m. team m = ''Unassigned'') metrics_data)
       \<and> (case fetch_and_calculate_metrics (w\<lparr>teams_json := FileNotFound\<rparr>) start_date end_date of
             Some (Inr out) \<Rightarrow>
               hd (printed out) = TeamMappingNotFound \<and> made_dirs out = [''output''] \<and>
               map fst (csv_files out) = [output_filename start_date end_date]
           | _ \<Rightarrow> False)"
proof (intro conjI allI impI)
  show "load_team_mapping FileNotFound = Inr (Map.empty, [TeamMappingNotFound])"
    by (simp add: load_team_mapping_def)
  show "team_of Map.empty login_name = ''Unassigned''" for login_name
    by simp
  show "list_all (\<lambda>m. team m = ''Unassigned'') metrics_data"
    if "collect_metrics (datetime_fromisoformat w) Map.empty get_detail prs =
          Inr (metrics_data, un, msgs)"
    for get_detail prs metrics_data un msgs
    using collect_metrics_teams [OF that] by simp
  let ?w = "w\<lparr>teams_json := FileNotFound\<rparr>"
  from assms obtain team_map msgs0 prs msgs1 requested filtered_prs metrics_data
      unassigned_users msgs2
    where pages: "github_api_request (pulls_endpoint w) = Some (prs, msgs1, requested)"
      and window: "filter_window (datetime_fromisoformat w) start_date end_date prs =
            Inr filtered_prs"
      and collect: "collect_metrics (datetime_fromisoformat w) team_map (pull_endpoint w)
            filtered_prs = Inr (metrics_data, unassigned_users, msgs2)"
      and data: "metrics_data \<noteq> []"
    by (rule run_reportE)
  from collect_metrics_other_map [OF collect, of Map.empty] obtain metrics_data' un'
    where collect': "collect_metrics (datetime_fromisoformat w) Map.empty (pull_endpoint w)
            filtered_prs = Inr (metrics_data', un', msgs2)"
      and len: "length metrics_data' = length metrics_data"
    by blast
  from len data have data': "metrics_data' \<noteq> []" by auto
  have h1: "load_team_mapping (teams_json ?w) = Inr (Map.empty, [TeamMappingNotFound])"
    by (simp add: load_team_mapping_def)
  have h2: "github_api_request (pulls_endpoint ?w) = Some (prs, msgs1, requested)"
    using pages by simp
  have h3: "filter_window (datetime_fromisoformat ?w) start_date end_date prs = Inr filtered_prs"
    using window by simp
  have h4: "collect_metrics (datetime_fromisoformat ?w) Map.empty (pull_endpoint ?w)
      filtered_prs = Inr (metrics_data', un', msgs2)"
    using collect' by simp
  show "case fetch_and_calculate_metrics ?w start_date end_date of
          Some (Inr out) \<Rightarrow>
            hd (printed out) = TeamMappingNotFound \<and> made_dirs out = [''output''] \<and>
            map fst (csv_files out) = [output_filename start_date end_date]
        | _ \<Rightarrow> False"
    unfolding run_with_data [OF h1 h2 h3 h4 data'] by simp
qed

lemma run_missing_file:
  "fetch_and_calculate_metrics (scenario_world\<lparr>teams_json := FileNotFound\<rparr>)
     ''2025-06-01'' ''2025-06-30'' = Some (Inr missing_file_outcome)"
proof -
  let ?w = "scenario_world\<lparr>teams_json := FileNotFound\<rparr>"
  have h1: "load_team_mapping (teams_json ?w) = Inr (Map.empty, [TeamMappingNotFound])"
    by (simp add: load_team_mapping_def)
  have h2: "github_api_request (pulls_endpoint ?w) = Some (scenario_prs, [], [1])"
    by (simp add: scenario_world_def one_page_request scenario_prs_def)
  have h3: "filter_window (datetime_fromisoformat ?w) ''2025-06-01'' ''2025-06-30''
      scenario_prs = Inr scenario_prs"
    by (simp add: scenario_world_def filter_scenario_june)
  have h4: "collect_metrics (datetime_fromisoformat ?w) Map.empty (pull_endpoint ?w)
      scenario_prs = Inr (all_unassigned_metrics, {''alice'', ''bob'', ''carol''}, [])"
    by (simp add: scenario_world_def collect_all_unassigned)
  have h5: "all_unassigned_metrics \<noteq> []"
    by (simp add: all_unassigned_metrics_def scenario_metrics_def)
  have f: "output_filename ''2025-06-01'' ''2025-06-30'' = june_file"
    by (simp add: output_filename_def june_file_def)
  have l: "length scenario_prs = 3" by (simp add: scenario_prs_def)
  have "sort_values_insertion merge_rate False [all_unassigned_row] = [all_unassigned_row]"
    by (simp add: sort_values_insertion_def)
  then have s: "sort_values ?w merge_rate False (team_stats all_unassigned_metrics) =
      [all_unassigned_row]"
    by (simp add: scenario_world_def team_stats_all_unassigned)
  show ?thesis
    unfolding run_with_data [OF h1 h2 h3 h4 h5] f l s missing_file_outcome_def by simp
qed

theorem missing_team_file_is_recoverable_witness:
  "fetch_and_calculate_metrics scenario_world ''2025-06-01'' ''2025-06-30'' =
      Some (Inr scenario_outcome)
   \<and> csv_files scenario_outcome \<noteq> []
   \<and> load_team_mapping FileNotFound = Inr (Map.empty, [TeamMappingNotFound])
   \<and> fetch_and_calculate_metrics (scenario_world\<lparr>teams_json := FileNotFound\<rparr>)
        ''2025-06-01'' ''2025-06-30'' = Some (Inr missing_file_outcome)
   \<and> hd (printed missing_file_outcome) = TeamMappingNotFound
   \<and> made_dirs missing_file_outcome = [''output'']
   \<and> map fst (csv_files missing_file_outcome) = [output_filename ''2025-06-01'' ''2025-06-30'']
   \<and> map (\<lambda>f. map row_team (snd (snd f))) (csv_files missing_file_outcome) = [[''Unassigned'']]"
proof -
  have h1: "fetch_and_calculate_metrics scenario_world ''2025-06-01'' ''2025-06-30'' =
      Some (Inr scenario_outcome)"
    by (rule run_scenario)
  have h2: "csv_files scenario_outcome \<noteq> []"
    by (simp add: scenario_outcome_def)
  have v: "map (\<lambda>f. map row_team (snd (snd f))) (csv_files missing_file_outcome) =
      [[''Unassigned'']]"
    by (simp add: missing_file_outcome_def all_unassigned_row_def)
  from missing_team_file_is_recoverable [OF h1 h2] h1 h2 v
  show ?thesis by (simp add: run_missing_file)
qed

end
